theory Spec2Isabelle
  imports Main "HOL-Library.Multiset"
begin

section \<open>The analytics collector of server.js\<close>

text \<open>
  The server keeps four SQLite tables and answers HTTP requests on them. The model is
  sequential: a handler takes the request, the clock and the store and returns the
  response and the store after it; every statement given to the store has run (or
  failed) before the next request is looked at. Whether a store operation succeeds is
  decided by the store, so it is an argument of the handler (\<open>outcome\<close>).

  What the driver (node-sqlite3) and SQLite do with a bound JavaScript value is library
  code; it is taken as a parameter (\<open>sqlite3\<close>). The model starts after Express has
  parsed the request: a request carries the \<open>x-api-key\<close> header, if any, the members
  of the parsed JSON body (none when there is no JSON body) and the query string.
\<close>

subsection \<open>JavaScript values\<close>

text \<open>A parsed JSON value. The number type is a parameter: numbers are only passed on.\<close>

datatype 'n json =
    JNull
  | JBool bool
  | JNum 'n
  | JStr string
  | JArr "'n json list"
  | JObj "(string \<times> 'n json) list"

text \<open>A JavaScript value that may be \<open>undefined\<close> (\<open>None\<close>).\<close>

type_synonym 'n js_value = "'n json option"

datatype js_error = TypeError

text \<open>
  An own member of a parsed object; of two members with one name \<open>JSON.parse\<close> keeps the
  last.
\<close>

definition member_of :: "(string \<times> 'n json) list \<Rightarrow> string \<Rightarrow> 'n js_value" where
  "member_of kvs f = map_of (rev kvs) f"

text \<open>
  \<open>data.f\<close>, for the property names the tracking handler reads (none of them is a
  property of a string, number, boolean or array, nor inherited by an object): reading a
  property of \<open>undefined\<close> or \<open>null\<close> throws, any other value without the member gives
  \<open>undefined\<close>.
\<close>

fun get_prop :: "'n js_value \<Rightarrow> string \<Rightarrow> js_error + 'n js_value" where
  "get_prop None f = Inl TypeError"
| "get_prop (Some JNull) f = Inl TypeError"
| "get_prop (Some (JObj kvs)) f = Inr (member_of kvs f)"
| "get_prop (Some v) f = Inr None"

text \<open>The array literal \<open>[data.f1, data.f2, ...]\<close>, evaluated left to right.\<close>

fun get_props :: "'n js_value \<Rightarrow> string list \<Rightarrow> js_error + 'n js_value list" where
  "get_props d [] = Inr []"
| "get_props d (f # fs) =
     (case get_prop d f of
        Inl e \<Rightarrow> Inl e
      | Inr v \<Rightarrow> (case get_props d fs of Inl e \<Rightarrow> Inl e | Inr vs \<Rightarrow> Inr (v # vs)))"

subsection \<open>The store\<close>

text \<open>
  A stored value of a column of REAL or INTEGER affinity. A column of TEXT affinity
  holds text or NULL (\<open>string option\<close>): SQLite turns numbers into text there.
\<close>

datatype 'n sql_value = SqlNull | SqlInteger int | SqlReal 'n | SqlText string

text \<open>
  The library: how a bound JavaScript value is stored in a column of each affinity, and
  the aggregate \<open>AVG\<close>.
\<close>

record 'n sqlite3 =
  to_text :: "'n js_value \<Rightarrow> string option"
  to_real :: "'n js_value \<Rightarrow> 'n sql_value"
  to_integer :: "'n js_value \<Rightarrow> 'n sql_value"
  avg :: "'n sql_value list \<Rightarrow> 'n sql_value"

text \<open>
  Every table has \<open>id INTEGER PRIMARY KEY AUTOINCREMENT\<close> (\<open>row_id\<close> here) and
  \<open>timestamp DATETIME DEFAULT CURRENT_TIMESTAMP\<close>. \<open>CURRENT_TIMESTAMP\<close> is the UTC time
  to the second, as text \<open>YYYY-MM-DD HH:MM:SS\<close>, whose text order is the order of
  time; the model keeps the number of seconds since the epoch.
\<close>

record stamped =
  row_id :: nat
  timestamp :: nat

record 'n performance_row = stamped +
  perf_page_url :: "string option"
  load_time :: "'n sql_value"
  fcp :: "'n sql_value"
  lcp :: "'n sql_value"
  cls :: "'n sql_value"
  fid :: "'n sql_value"
  ttfb :: "'n sql_value"
  dom_ready :: "'n sql_value"
  perf_device_type :: "string option"

record 'n seo_row = stamped +
  seo_page_url :: "string option"
  title :: "string option"
  meta_description :: "string option"
  h1_count :: "'n sql_value"
  lighthouse_score :: "'n sql_value"
  images_without_alt :: "'n sql_value"
  internal_links :: "'n sql_value"
  external_links :: "'n sql_value"

record form_row = stamped +
  form_type :: "string option"
  form_page_url :: "string option"
  form_referrer :: "string option"
  form_device_type :: "string option"
  conversion_source :: "string option"

record 'n user_row = stamped +
  session_id :: "string option"
  user_page_url :: "string option"
  user_referrer :: "string option"
  user_device_type :: "string option"
  screen_resolution :: "string option"
  user_agent :: "string option"
  time_on_page :: "'n sql_value"

text \<open>
  A table is the list of its rows in rowid order. The \<open>_seq\<close> fields are the table
  \<open>sqlite_sequence\<close> that AUTOINCREMENT keeps: the largest rowid each table has had.
\<close>

record 'n db =
  performance_metrics :: "'n performance_row list"
  seo_metrics :: "'n seo_row list"
  form_submissions :: "form_row list"
  user_analytics :: "'n user_row list"
  performance_seq :: nat
  seo_seq :: nat
  form_seq :: nat
  user_seq :: nat

text \<open>The rowid AUTOINCREMENT gives a new row: one more than the largest there ever was.\<close>

definition next_rowid :: "nat \<Rightarrow> ('a stamped_scheme) list \<Rightarrow> nat" where
  "next_rowid seq rows = Suc (fold max (map row_id rows) seq)"

text \<open>
  The four INSERT statements of the tracking handler, run at clock \<open>now\<close> with the bound
  values \<open>ps\<close>, in the order of the statement's column list. The id and the timestamp are
  not in the column list, so they take their defaults.
\<close>

definition insert_performance ::
  "'n sqlite3 \<Rightarrow> nat \<Rightarrow> 'n js_value list \<Rightarrow> 'n db \<Rightarrow> 'n db" where
  "insert_performance lib now ps db =
     (let i = next_rowid (performance_seq db) (performance_metrics db) in
      db\<lparr>performance_metrics := performance_metrics db @
           [\<lparr>row_id = i, timestamp = now,
             perf_page_url = to_text lib (ps ! 0),
             load_time = to_real lib (ps ! 1),
             fcp = to_real lib (ps ! 2),
             lcp = to_real lib (ps ! 3),
             cls = to_real lib (ps ! 4),
             fid = to_real lib (ps ! 5),
             ttfb = to_real lib (ps ! 6),
             dom_ready = to_real lib (ps ! 7),
             perf_device_type = to_text lib (ps ! 8)\<rparr>],
         performance_seq := i\<rparr>)"

definition insert_seo ::
  "'n sqlite3 \<Rightarrow> nat \<Rightarrow> 'n js_value list \<Rightarrow> 'n db \<Rightarrow> 'n db" where
  "insert_seo lib now ps db =
     (let i = next_rowid (seo_seq db) (seo_metrics db) in
      db\<lparr>seo_metrics := seo_metrics db @
           [\<lparr>row_id = i, timestamp = now,
             seo_page_url = to_text lib (ps ! 0),
             title = to_text lib (ps ! 1),
             meta_description = to_text lib (ps ! 2),
             h1_count = to_integer lib (ps ! 3),
             lighthouse_score = to_real lib (ps ! 4),
             images_without_alt = to_integer lib (ps ! 5),
             internal_links = to_integer lib (ps ! 6),
             external_links = to_integer lib (ps ! 7)\<rparr>],
         seo_seq := i\<rparr>)"

definition insert_form ::
  "'n sqlite3 \<Rightarrow> nat \<Rightarrow> 'n js_value list \<Rightarrow> 'n db \<Rightarrow> 'n db" where
  "insert_form lib now ps db =
     (let i = next_rowid (form_seq db) (form_submissions db) in
      db\<lparr>form_submissions := form_submissions db @
           [\<lparr>row_id = i, timestamp = now,
             form_type = to_text lib (ps ! 0),
             form_page_url = to_text lib (ps ! 1),
             form_referrer = to_text lib (ps ! 2),
             form_device_type = to_text lib (ps ! 3),
             conversion_source = to_text lib (ps ! 4)\<rparr>],
         form_seq := i\<rparr>)"

definition insert_user ::
  "'n sqlite3 \<Rightarrow> nat \<Rightarrow> 'n js_value list \<Rightarrow> 'n db \<Rightarrow> 'n db" where
  "insert_user lib now ps db =
     (let i = next_rowid (user_seq db) (user_analytics db) in
      db\<lparr>user_analytics := user_analytics db @
           [\<lparr>row_id = i, timestamp = now,
             session_id = to_text lib (ps ! 0),
             user_page_url = to_text lib (ps ! 1),
             user_referrer = to_text lib (ps ! 2),
             user_device_type = to_text lib (ps ! 3),
             screen_resolution = to_text lib (ps ! 4),
             user_agent = to_text lib (ps ! 5),
             time_on_page = to_integer lib (ps ! 6)\<rparr>],
         user_seq := i\<rparr>)"

text \<open>Whether the store carries an operation out.\<close>

datatype outcome = Succeeds | Fails

text \<open>
  \<open>db.run(sql, params)\<close> without a callback. The driver queues the statement and returns
  at once; a failure of the statement is reported later, to the callback or, when there
  is none, as an \<open>error\<close> event. Nothing comes back to the caller in either case: the
  result is the store alone, changed when the statement succeeds.
\<close>

definition db_run :: "outcome \<Rightarrow> ('n db \<Rightarrow> 'n db) \<Rightarrow> 'n db \<Rightarrow> 'n db" where
  "db_run w stmt db = (case w of Succeeds \<Rightarrow> stmt db | Fails \<Rightarrow> db)"

text \<open>
  \<open>ORDER BY timestamp DESC LIMIT 100\<close>. SQL leaves the order of rows with one timestamp
  open; SQLite, for a query with a LIMIT, keeps them in scan order (rising rowid), which
  the stable sort does.
\<close>

definition order_by_timestamp_desc_limit_100 ::
  "('a stamped_scheme) list \<Rightarrow> ('a stamped_scheme) list" where
  "order_by_timestamp_desc_limit_100 rows =
     take 100 (sort_key (\<lambda>r. - int (timestamp r)) rows)"

text \<open>\<open>date(t)\<close> of a UTC time: the day it falls on.\<close>

definition date :: "nat \<Rightarrow> nat" where
  "date t = t div 86400"

text \<open>\<open>WHERE date(timestamp) = date("now")\<close>.\<close>

definition today :: "nat \<Rightarrow> ('a stamped_scheme) list \<Rightarrow> ('a stamped_scheme) list" where
  "today now rows = filter (\<lambda>r. date (timestamp r) = date now) rows"

text \<open>\<open>COUNT(DISTINCT c)\<close>: the number of different values of the column that are not NULL.\<close>

definition count_distinct :: "'a option list \<Rightarrow> nat" where
  "count_distinct col = length (remdups (List.map_filter (\<lambda>v. v) col))"

subsection \<open>Requests and responses\<close>

record 'n request =
  x_api_key :: "string option"
  body :: "(string \<times> 'n json) list"
  query :: "(string \<times> string) list"

text \<open>The object \<open>stats\<close> of the dashboard handler.\<close>

record 'n stats =
  performance_total :: nat
  performance_avg_load_time :: "'n sql_value"
  forms_total :: nat
  users_unique_sessions :: nat

datatype 'n reply =
    Error string
  | Success string
  | Health string string string nat string
  | Summary nat "'n stats"
  | PerformanceRows "'n performance_row list"
  | SeoRows "'n seo_row list"
  | FormRows "form_row list"
  | UserRows "'n user_row list"

record 'n response =
  http_status :: nat
  json_body :: "'n reply"

subsection \<open>The handlers\<close>

definition validKeys :: "string list" where
  "validKeys = [''dvl-media-main'', ''dvl-media-dev'']"

text \<open>
  The middleware \<open>validateApiKey\<close>: the response it sends, or \<open>None\<close> when it calls
  \<open>next()\<close>. \<open>!apiKey\<close> holds of \<open>undefined\<close> and of the empty string.
\<close>

definition validateApiKey :: "'n request \<Rightarrow> 'n response option" where
  "validateApiKey req =
     (case x_api_key req of
        None \<Rightarrow> Some \<lparr>http_status = 401, json_body = Error ''Invalid or missing API key''\<rparr>
      | Some apiKey \<Rightarrow>
          if apiKey = [] \<or> apiKey \<notin> set validKeys
          then Some \<lparr>http_status = 401, json_body = Error ''Invalid or missing API key''\<rparr>
          else None)"

text \<open>
  \<open>GET /api/health\<close>. The handler is given what every handler is given (the request, what
  the store would do with an operation, the clock and the store) and uses the clock alone.
\<close>

definition api_health :: "'n request \<Rightarrow> outcome \<Rightarrow> nat \<Rightarrow> 'n db \<Rightarrow> 'n response \<times> 'n db" where
  "api_health req w now db =
     (\<lparr>http_status = 200,
       json_body = Health ''healthy'' ''DVL Analytics API'' ''1.0.0'' now ''connected''\<rparr>, db)"

text \<open>The property names read in each case of the tracking handler, in the order read.\<close>

definition performance_fields :: "string list" where
  "performance_fields = [''pageUrl'', ''loadTime'', ''fcp'', ''lcp'', ''cls'', ''fid'', ''ttfb'',
     ''domReady'', ''deviceType'']"

definition seo_fields :: "string list" where
  "seo_fields = [''pageUrl'', ''title'', ''metaDescription'', ''h1Count'', ''lighthouseScore'',
     ''imagesWithoutAlt'', ''internalLinks'', ''externalLinks'']"

definition form_fields :: "string list" where
  "form_fields = [''formType'', ''pageUrl'', ''referrer'', ''deviceType'', ''conversionSource'']"

definition user_fields :: "string list" where
  "user_fields = [''sessionId'', ''pageUrl'', ''referrer'', ''deviceType'', ''screenResolution'',
     ''userAgent'', ''timeOnPage'']"

text \<open>
  The body of the \<open>try\<close> block of the tracking handler: the switch on \<open>type\<close> (by strict
  equality, so only a string matches), the call of \<open>db.run\<close> and the response. \<open>Inl\<close> is a
  throw; the values bound are read before \<open>db.run\<close> is called.
\<close>

definition track_try ::
  "'n sqlite3 \<Rightarrow> outcome \<Rightarrow> nat \<Rightarrow> 'n js_value \<Rightarrow> 'n js_value \<Rightarrow> 'n db
     \<Rightarrow> js_error + ('n response \<times> 'n db)" where
  "track_try lib w now type data db =
     (let success = \<lparr>http_status = 200, json_body = Success ''Data tracked successfully''\<rparr> in
      if type = Some (JStr ''performance'') then
        (case get_props data performance_fields of
           Inl e \<Rightarrow> Inl e
         | Inr ps \<Rightarrow> Inr (success, db_run w (insert_performance lib now ps) db))
      else if type = Some (JStr ''seo'') then
        (case get_props data seo_fields of
           Inl e \<Rightarrow> Inl e
         | Inr ps \<Rightarrow> Inr (success, db_run w (insert_seo lib now ps) db))
      else if type = Some (JStr ''form'') then
        (case get_props data form_fields of
           Inl e \<Rightarrow> Inl e
         | Inr ps \<Rightarrow> Inr (success, db_run w (insert_form lib now ps) db))
      else if type = Some (JStr ''user'') then
        (case get_props data user_fields of
           Inl e \<Rightarrow> Inl e
         | Inr ps \<Rightarrow> Inr (success, db_run w (insert_user lib now ps) db))
      else Inr (\<lparr>http_status = 400, json_body = Error ''Invalid tracking type''\<rparr>, db))"

text \<open>
  The tracking handler: \<open>const { type, data } = req.body\<close>, then the \<open>try\<close> block and its
  \<open>catch\<close>.
\<close>

definition track ::
  "'n sqlite3 \<Rightarrow> outcome \<Rightarrow> nat \<Rightarrow> 'n request \<Rightarrow> 'n db \<Rightarrow> 'n response \<times> 'n db" where
  "track lib w now req db =
     (case track_try lib w now (member_of (body req) ''type'') (member_of (body req) ''data'') db of
        Inl e \<Rightarrow> (\<lparr>http_status = 500, json_body = Error ''Failed to track data''\<rparr>, db)
      | Inr r \<Rightarrow> r)"

text \<open>\<open>POST /api/track\<close>: the middleware, then the handler.\<close>

definition api_track ::
  "'n sqlite3 \<Rightarrow> outcome \<Rightarrow> nat \<Rightarrow> 'n request \<Rightarrow> 'n db \<Rightarrow> 'n response \<times> 'n db" where
  "api_track lib w now req db =
     (case validateApiKey req of
        Some r \<Rightarrow> (r, db)
      | None \<Rightarrow> track lib w now req db)"

text \<open>
  \<open>GET /api/dashboard\<close>: three nested \<open>db.get\<close> calls, each with the outcome the store
  gives it; the handler is modelled on one state of the store and one reading of the
  clock.
\<close>

definition api_dashboard ::
  "'n sqlite3 \<Rightarrow> outcome \<Rightarrow> outcome \<Rightarrow> outcome \<Rightarrow> nat \<Rightarrow> 'n request \<Rightarrow> 'n db
     \<Rightarrow> 'n response \<times> 'n db" where
  "api_dashboard lib r1 r2 r3 now req db =
     (let failed = \<lparr>http_status = 500, json_body = Error ''Database error''\<rparr> in
      case r1 of
        Fails \<Rightarrow> (failed, db)
      | Succeeds \<Rightarrow>
          let perf = today now (performance_metrics db) in
          (case r2 of
             Fails \<Rightarrow> (failed, db)
           | Succeeds \<Rightarrow>
               let forms = today now (form_submissions db) in
               (case r3 of
                  Fails \<Rightarrow> (failed, db)
                | Succeeds \<Rightarrow>
                    let users = today now (user_analytics db) in
                    (\<lparr>http_status = 200,
                      json_body = Summary now
                        \<lparr>performance_total = length perf,
                         performance_avg_load_time = avg lib (map load_time perf),
                         forms_total = length forms,
                         users_unique_sessions = count_distinct (map session_id users)\<rparr>\<rparr>,
                     db))))"

text \<open>The four listings.\<close>

definition api_performance :: "outcome \<Rightarrow> 'n request \<Rightarrow> 'n db \<Rightarrow> 'n response \<times> 'n db" where
  "api_performance r req db =
     (case r of
        Fails \<Rightarrow> (\<lparr>http_status = 500, json_body = Error ''Database error''\<rparr>, db)
      | Succeeds \<Rightarrow>
          (\<lparr>http_status = 200,
            json_body = PerformanceRows
              (order_by_timestamp_desc_limit_100 (performance_metrics db))\<rparr>, db))"

definition api_seo :: "outcome \<Rightarrow> 'n request \<Rightarrow> 'n db \<Rightarrow> 'n response \<times> 'n db" where
  "api_seo r req db =
     (case r of
        Fails \<Rightarrow> (\<lparr>http_status = 500, json_body = Error ''Database error''\<rparr>, db)
      | Succeeds \<Rightarrow>
          (\<lparr>http_status = 200,
            json_body = SeoRows (order_by_timestamp_desc_limit_100 (seo_metrics db))\<rparr>, db))"

definition api_forms :: "outcome \<Rightarrow> 'n request \<Rightarrow> 'n db \<Rightarrow> 'n response \<times> 'n db" where
  "api_forms r req db =
     (case r of
        Fails \<Rightarrow> (\<lparr>http_status = 500, json_body = Error ''Database error''\<rparr>, db)
      | Succeeds \<Rightarrow>
          (\<lparr>http_status = 200,
            json_body = FormRows (order_by_timestamp_desc_limit_100 (form_submissions db))\<rparr>, db))"

definition api_users :: "outcome \<Rightarrow> 'n request \<Rightarrow> 'n db \<Rightarrow> 'n response \<times> 'n db" where
  "api_users r req db =
     (case r of
        Fails \<Rightarrow> (\<lparr>http_status = 500, json_body = Error ''Database error''\<rparr>, db)
      | Succeeds \<Rightarrow>
          (\<lparr>http_status = 200,
            json_body = UserRows (order_by_timestamp_desc_limit_100 (user_analytics db))\<rparr>, db))"

subsection \<open>The four kinds of event, uniformly\<close>

text \<open>
  The handlers above are written out per table, as in the source. To state a property of
  all four at once, a kind names a case of the switch, its table and its listing route.
\<close>

datatype kind = Performance | Seo | Form | User

text \<open>The case label of the switch.\<close>

fun event_type :: "kind \<Rightarrow> string" where
  "event_type Performance = ''performance''"
| "event_type Seo = ''seo''"
| "event_type Form = ''form''"
| "event_type User = ''user''"

fun fields_of :: "kind \<Rightarrow> string list" where
  "fields_of Performance = performance_fields"
| "fields_of Seo = seo_fields"
| "fields_of Form = form_fields"
| "fields_of User = user_fields"

fun insert_of :: "kind \<Rightarrow> 'n sqlite3 \<Rightarrow> nat \<Rightarrow> 'n js_value list \<Rightarrow> 'n db \<Rightarrow> 'n db" where
  "insert_of Performance = insert_performance"
| "insert_of Seo = insert_seo"
| "insert_of Form = insert_form"
| "insert_of User = insert_user"

text \<open>A row of any of the four tables.\<close>

datatype 'n row =
    PerformanceRow "'n performance_row"
  | SeoRow "'n seo_row"
  | FormRow form_row
  | UserRow "'n user_row"

fun stamp :: "'n row \<Rightarrow> nat" where
  "stamp (PerformanceRow r) = timestamp r"
| "stamp (SeoRow r) = timestamp r"
| "stamp (FormRow r) = timestamp r"
| "stamp (UserRow r) = timestamp r"

fun table_of :: "kind \<Rightarrow> 'n db \<Rightarrow> 'n row list" where
  "table_of Performance db = map PerformanceRow (performance_metrics db)"
| "table_of Seo db = map SeoRow (seo_metrics db)"
| "table_of Form db = map FormRow (form_submissions db)"
| "table_of User db = map UserRow (user_analytics db)"

text \<open>The listing route of a kind: /api/performance, /api/seo, /api/forms, /api/users.\<close>

fun list_kind :: "kind \<Rightarrow> outcome \<Rightarrow> 'n request \<Rightarrow> 'n db \<Rightarrow> 'n response \<times> 'n db" where
  "list_kind Performance = api_performance"
| "list_kind Seo = api_seo"
| "list_kind Form = api_forms"
| "list_kind User = api_users"

text \<open>The rows a response carries, in its order; none when it is not a listing.\<close>

definition listed :: "'n response \<Rightarrow> 'n row list" where
  "listed r =
     (case json_body r of
        PerformanceRows rs \<Rightarrow> map PerformanceRow rs
      | SeoRows rs \<Rightarrow> map SeoRow rs
      | FormRows rs \<Rightarrow> map FormRow rs
      | UserRows rs \<Rightarrow> map UserRow rs
      | _ \<Rightarrow> [])"

text \<open>The responses that the properties name.\<close>

definition tracked :: "'n response" where
  "tracked = \<lparr>http_status = 200, json_body = Success ''Data tracked successfully''\<rparr>"

definition unauthorized :: "'n response" where
  "unauthorized = \<lparr>http_status = 401, json_body = Error ''Invalid or missing API key''\<rparr>"

definition invalid_type :: "'n response" where
  "invalid_type = \<lparr>http_status = 400, json_body = Error ''Invalid tracking type''\<rparr>"

definition failed_to_track :: "'n response" where
  "failed_to_track = \<lparr>http_status = 500, json_body = Error ''Failed to track data''\<rparr>"

definition database_error :: "'n response" where
  "database_error = \<lparr>http_status = 500, json_body = Error ''Database error''\<rparr>"

text \<open>
  \<open>users.unique_sessions\<close> of the dashboard's response when its three queries succeed.
\<close>

definition unique_session_count :: "'n sqlite3 \<Rightarrow> nat \<Rightarrow> 'n request \<Rightarrow> 'n db \<Rightarrow> nat option" where
  "unique_session_count lib now req db =
     (case json_body (fst (api_dashboard lib Succeeds Succeeds Succeeds now req db)) of
        Summary t st \<Rightarrow> Some (users_unique_sessions st)
      | _ \<Rightarrow> None)"

subsection \<open>Values to evaluate the handlers on\<close>

text \<open>
  The library at the values the examples below bind: a string in a TEXT column is stored
  as it is, \<open>undefined\<close> and \<open>null\<close> are stored as NULL, and \<open>AVG\<close> of no value is NULL.
  (On other values it is a placeholder; the examples bind none.)
\<close>

definition strings_lib :: "int sqlite3" where
  "strings_lib =
     \<lparr>to_text = (\<lambda>v. case v of Some (JStr s) \<Rightarrow> Some s | _ \<Rightarrow> None),
      to_real = (\<lambda>v. SqlNull),
      to_integer = (\<lambda>v. SqlNull),
      avg = (\<lambda>vs. SqlNull)\<rparr>"

definition empty_db :: "int db" where
  "empty_db =
     \<lparr>performance_metrics = [], seo_metrics = [], form_submissions = [], user_analytics = [],
      performance_seq = 0, seo_seq = 0, form_seq = 0, user_seq = 0\<rparr>"

text \<open>The form event of the specification's example, with a valid key.\<close>

definition contact_data :: "(string \<times> int json) list" where
  "contact_data =
     [(''formType'', JStr ''contact''), (''pageUrl'', JStr ''/contact''),
      (''referrer'', JStr ''direct''), (''deviceType'', JStr ''mobile''),
      (''conversionSource'', JStr ''organic'')]"

definition contact_form :: "int request" where
  "contact_form =
     \<lparr>x_api_key = Some ''dvl-media-main'',
      body = [(''type'', JStr ''form''), (''data'', JObj contact_data)],
      query = []\<rparr>"

text \<open>The row the store makes of it at clock \<open>t\<close> with rowid \<open>i\<close>.\<close>

definition contact_row :: "nat \<Rightarrow> nat \<Rightarrow> form_row" where
  "contact_row i t =
     \<lparr>row_id = i, timestamp = t, form_type = Some ''contact'', form_page_url = Some ''/contact'',
      form_referrer = Some ''direct'', form_device_type = Some ''mobile'',
      conversion_source = Some ''organic''\<rparr>"

text \<open>A request with no key and no body, as a browser's GET.\<close>

definition plain_get :: "int request" where
  "plain_get = \<lparr>x_api_key = None, body = [], query = []\<rparr>"

text \<open>The same event with a client's \<open>timestamp\<close> and \<open>id\<close> added to the payload.\<close>

definition contact_form_with_timestamp :: "int request" where
  "contact_form_with_timestamp =
     \<lparr>x_api_key = Some ''dvl-media-main'',
      body = [(''type'', JStr ''form''),
              (''data'', JObj (contact_data @
                 [(''timestamp'', JStr ''1999-12-31 23:59:59''), (''id'', JNum 7)]))],
      query = []\<rparr>"

text \<open>
  A form event with no \<open>data\<close>, a user event whose \<open>data\<close> is \<open>null\<close>, a form event
  whose \<open>data\<close> is a string, an unknown type.
\<close>

definition form_without_data :: "int request" where
  "form_without_data =
     \<lparr>x_api_key = Some ''dvl-media-main'', body = [(''type'', JStr ''form'')], query = []\<rparr>"

definition user_with_null_data :: "int request" where
  "user_with_null_data =
     \<lparr>x_api_key = Some ''dvl-media-dev'', body = [(''type'', JStr ''user''), (''data'', JNull)],
      query = []\<rparr>"

definition form_with_string_data :: "int request" where
  "form_with_string_data =
     \<lparr>x_api_key = Some ''dvl-media-main'',
      body = [(''type'', JStr ''form''), (''data'', JStr ''abc'')], query = []\<rparr>"

definition bogus_event :: "int request" where
  "bogus_event =
     \<lparr>x_api_key = Some ''dvl-media-main'',
      body = [(''type'', JStr ''bogus''), (''data'', JObj contact_data)], query = []\<rparr>"

text \<open>A page view of a session.\<close>

definition page_view :: "string \<Rightarrow> int request" where
  "page_view s =
     \<lparr>x_api_key = Some ''dvl-media-dev'',
      body = [(''type'', JStr ''user''),
              (''data'', JObj [(''sessionId'', JStr s), (''pageUrl'', JStr ''/'')])],
      query = []\<rparr>"

text \<open>The store after the form event was tracked at second 1000.\<close>

definition same_second_db :: "int db" where
  "same_second_db = snd (api_track strings_lib Succeeds 1000 contact_form empty_db)"

text \<open>The store after three page views of one session, at seconds 1000, 1001 and 1002.\<close>

definition three_views :: "int db" where
  "three_views =
     snd (api_track strings_lib Succeeds 1002 (page_view ''s1'')
       (snd (api_track strings_lib Succeeds 1001 (page_view ''s1'')
         (snd (api_track strings_lib Succeeds 1000 (page_view ''s1'') empty_db)))))"

text \<open>A store with 101 form rows, one a second.\<close>

definition big_db :: "int db" where
  "big_db = empty_db\<lparr>form_submissions := map (\<lambda>i. contact_row i (1000 + i)) [1..<102],
                      form_seq := 101\<rparr>"

section \<open>Properties\<close>

subsection \<open>Reading the request\<close>

lemma valid_key_next:
  "x_api_key req \<in> Some ` set validKeys \<Longrightarrow> validateApiKey req = None"
  by (auto simp: validateApiKey_def validKeys_def)

lemma api_track_valid_key:
  "x_api_key req \<in> Some ` set validKeys \<Longrightarrow> api_track lib w now req db = track lib w now req db"
  by (simp add: api_track_def valid_key_next)

lemma validateApiKey_key:
  "x_api_key req' = x_api_key req \<Longrightarrow> validateApiKey req' = validateApiKey req"
  by (simp add: validateApiKey_def)

lemma validateApiKey_not_tracked: "validateApiKey req \<noteq> Some tracked"
  by (auto simp: validateApiKey_def tracked_def split: option.splits)

lemma get_props_object:
  "get_props (Some (JObj kvs)) fs = Inr (map (member_of kvs) fs)"
  by (induction fs) auto

lemma get_props_nullish:
  "d \<in> {None, Some JNull} \<Longrightarrow> fs \<noteq> [] \<Longrightarrow> get_props d fs = Inl TypeError"
  by (cases fs) auto

lemma get_props_cong:
  "\<forall>f\<in>set fs. get_prop d' f = get_prop d f \<Longrightarrow> get_props d' fs = get_props d fs"
  by (induction fs) (auto split: sum.splits)

lemma get_props_primitive:
  "v \<noteq> JNull \<Longrightarrow> \<forall>kvs. v \<noteq> JObj kvs \<Longrightarrow> get_props (Some v) fs = Inr (map (\<lambda>f. None) fs)"
  by (induction fs) (cases v; simp)+

lemma fields_of_not_Nil: "fields_of k \<noteq> []"
  by (cases k) (simp_all add: performance_fields_def seo_fields_def form_fields_def user_fields_def)

subsection \<open>The tracking handler, by kind\<close>

lemma track_try_kind:
  "track_try lib w now (Some (JStr (event_type k))) data db =
     (case get_props data (fields_of k) of
        Inl e \<Rightarrow> Inl e
      | Inr ps \<Rightarrow> Inr (tracked, db_run w (insert_of k lib now ps) db))"
  by (cases k) (auto simp: track_try_def tracked_def split: sum.splits)

lemma track_try_unknown:
  "type \<notin> {Some (JStr ''performance''), Some (JStr ''seo''), Some (JStr ''form''), Some (JStr ''user'')}
   \<Longrightarrow> track_try lib w now type data db = Inr (invalid_type, db)"
  by (simp add: track_try_def invalid_type_def)

lemma known_type_kind:
  "type \<in> {Some (JStr ''performance''), Some (JStr ''seo''), Some (JStr ''form''), Some (JStr ''user'')}
   \<Longrightarrow> \<exists>k. type = Some (JStr (event_type k))"
proof -
  assume "type \<in> {Some (JStr ''performance''), Some (JStr ''seo''), Some (JStr ''form''), Some (JStr ''user'')}"
  then consider "type = Some (JStr (event_type Performance))" | "type = Some (JStr (event_type Seo))"
    | "type = Some (JStr (event_type Form))" | "type = Some (JStr (event_type User))"
    by auto
  then show ?thesis
    by cases blast+
qed

lemma track_known_type_status:
  "http_status (fst (track lib w now req db)) \<noteq> 400"
  if "member_of (body req) ''type'' = Some (JStr (event_type k))"
proof (cases "get_props (member_of (body req) ''data'') (fields_of k)")
  case (Inl e)
  with that show ?thesis
    by (simp add: track_def track_try_kind)
next
  case (Inr ps)
  with that show ?thesis
    by (simp add: track_def track_try_kind tracked_def)
qed

lemma track_accepts:
  assumes "x_api_key req \<in> Some ` set validKeys"
    and "member_of (body req) ''type'' = Some (JStr (event_type k))"
    and "get_props (member_of (body req) ''data'') (fields_of k) = Inr ps"
  shows "api_track lib w now req db = (tracked, db_run w (insert_of k lib now ps) db)"
  using assms by (simp add: api_track_valid_key track_def track_try_kind)

lemma insert_of_same:
  "\<exists>new. table_of k (insert_of k lib now ps db) = table_of k db @ [new] \<and> stamp new = now"
  by (cases k)
    (simp_all add: insert_performance_def insert_seo_def insert_form_def insert_user_def Let_def)

lemma insert_of_other:
  "k' \<noteq> k \<Longrightarrow> table_of k' (insert_of k lib now ps db) = table_of k' db"
  by (cases k; cases k')
    (simp_all add: insert_performance_def insert_seo_def insert_form_def insert_user_def Let_def)

subsection \<open>The ordering of a listing\<close>

lemma foldr_insort_least:
  "\<forall>y\<in>set xs. f x < f y \<Longrightarrow> foldr (insort_key f) xs [x] = x # foldr (insort_key f) xs []"
  by (induction xs) (auto dest: leD)

text \<open>A row whose key is below every other's, put last in the table, is sorted to the front.\<close>

lemma sort_key_snoc_least:
  "\<forall>y\<in>set xs. f x < f y \<Longrightarrow> sort_key f (xs @ [x]) = x # sort_key f xs"
  by (simp add: sort_key_def foldr_insort_least)

lemma insort_key_under_map:
  "insort_key f (g x) (map g xs) = map g (insort_key (\<lambda>a. f (g a)) x xs)"
  by (induction xs) auto

lemma sort_key_under_map:
  "sort_key f (map g xs) = map g (sort_key (\<lambda>a. f (g a)) xs)"
  by (induction xs) (auto simp: insort_key_under_map)

lemma sort_key_descending:
  "sorted_wrt (\<lambda>a b. (t b :: nat) \<le> t a) (sort_key (\<lambda>r. - int (t r)) xs)"
proof -
  have "sorted (map (\<lambda>r. - int (t r)) (sort_key (\<lambda>r. - int (t r)) xs))"
    by (rule sorted_sort_key)
  then show ?thesis
    by (simp add: sorted_map)
qed

text \<open>What a listing carries, in terms of the table of its kind.\<close>

lemma listed_list_kind:
  "listed (fst (list_kind k Succeeds req db)) =
     take 100 (sort_key (\<lambda>r. - int (stamp r)) (table_of k db))"
  by (cases k)
    (simp_all add: listed_def api_performance_def api_seo_def api_forms_def api_users_def
      order_by_timestamp_desc_limit_100_def sort_key_under_map take_map)

lemma listed_list_kind_fails:
  "listed (fst (list_kind k Fails req db)) = []"
  by (cases k)
    (simp_all add: listed_def api_performance_def api_seo_def api_forms_def api_users_def)

lemma list_kind_reads_only:
  "snd (list_kind k w req db) = db \<and> list_kind k w req' db = list_kind k w req db"
  by (cases k; cases w) (simp_all add: api_performance_def api_seo_def api_forms_def api_users_def)

text \<open>The rows listed are the most recent ones.\<close>

lemma take_100_top:
  fixes ys :: "'n row list"
  assumes "sorted_wrt (\<lambda>a b. stamp b \<le> stamp a) ys"
  shows "\<forall>x\<in>set (drop 100 ys). \<forall>y\<in>set (take 100 ys). stamp x \<le> stamp y"
proof -
  have "sorted_wrt (\<lambda>a b. stamp b \<le> stamp a) (take 100 ys @ drop 100 ys)"
    using assms by simp
  then show ?thesis
    unfolding sorted_wrt_append by blast
qed

lemma mset_minus_take:
  "mset xs = mset ys \<Longrightarrow> mset xs - mset (take n ys) = mset (drop n ys)"
proof -
  assume "mset xs = mset ys"
  then have "mset xs = mset (take n ys) + mset (drop n ys)"
    by (simp flip: mset_append)
  then show ?thesis
    by simp
qed

lemma listing_is_top:
  "length (listed (fst (list_kind k Succeeds req db))) = min 100 (length (table_of k db))
   \<and> mset (listed (fst (list_kind k Succeeds req db))) \<subseteq># mset (table_of k db)
   \<and> (\<forall>x\<in>#mset (table_of k db) - mset (listed (fst (list_kind k Succeeds req db))).
        \<forall>y\<in>set (listed (fst (list_kind k Succeeds req db))). stamp x \<le> stamp y)"
proof -
  let ?ys = "sort_key (\<lambda>r. - int (stamp r)) (table_of k db)"
  have eq: "listed (fst (list_kind k Succeeds req db)) = take 100 ?ys"
    by (rule listed_list_kind)
  have ms: "mset (table_of k db) = mset ?ys"
    by simp
  have rest: "mset (table_of k db) - mset (take 100 ?ys) = mset (drop 100 ?ys)"
    using ms by (rule mset_minus_take)
  have len: "length (take 100 ?ys) = min 100 (length (table_of k db))"
    by (simp add: min.commute)
  have "mset (take 100 ?ys) \<subseteq># mset (take 100 ?ys) + mset (drop 100 ?ys)"
    by (rule mset_subset_eq_add_left)
  then have sub: "mset (take 100 ?ys) \<subseteq># mset (table_of k db)"
    by (simp flip: mset_append)
  have top: "\<forall>x\<in>set (drop 100 ?ys). \<forall>y\<in>set (take 100 ?ys). stamp x \<le> stamp y"
    by (rule take_100_top) (rule sort_key_descending)
  have top': "\<forall>x\<in>#mset (table_of k db) - mset (take 100 ?ys). \<forall>y\<in>set (take 100 ?ys). stamp x \<le> stamp y"
    unfolding rest using top by simp
  show ?thesis
    unfolding eq using len sub top' by blast
qed

lemma listing_bounded:
  "length (listed (fst (list_kind k w req db))) \<le> 100"
  by (cases w) (simp_all add: listed_list_kind listed_list_kind_fails)

lemma listing_descending:
  "sorted_wrt (\<lambda>a b. stamp b \<le> stamp a) (listed (fst (list_kind k w req db)))"
  by (cases w)
    (simp_all add: listed_list_kind listed_list_kind_fails sorted_wrt_take sort_key_descending)

subsection \<open>Counting distinct values\<close>

lemma count_distinct_card:
  "count_distinct col = card {s. Some s \<in> set col}"
proof -
  have "set (List.map_filter (\<lambda>v. v) col) = {s. Some s \<in> set col}"
    by (induction col) (auto simp: List.map_filter_simps split: option.splits)
  then show ?thesis
    by (simp add: count_distinct_def length_remdups_card_conv)
qed

lemma count_distinct_append_same:
  assumes "\<forall>v\<in>set new. v = sid"
  shows "count_distinct (col @ new) \<le> count_distinct col + 1"
proof -
  have fin: "finite {s. Some s \<in> set col}"
    by (rule finite_subset [of _ "the ` set col"]) force+
  have "{s. Some s \<in> set (col @ new)} \<subseteq> {s. Some s \<in> set col} \<union> {s. Some s = sid}"
    using assms by auto
  also have "\<dots> \<subseteq> insert (the sid) {s. Some s \<in> set col}"
    by auto
  finally have "card {s. Some s \<in> set (col @ new)} \<le> card (insert (the sid) {s. Some s \<in> set col})"
    using fin by (simp add: card_mono)
  also have "\<dots> \<le> card {s. Some s \<in> set col} + 1"
    using fin by (simp add: card_insert_if)
  finally show ?thesis
    by (simp add: count_distinct_card)
qed

lemma unique_session_count_eq:
  "unique_session_count lib now req db =
     Some (count_distinct (map session_id (today now (user_analytics db))))"
  by (simp add: unique_session_count_def api_dashboard_def Let_def)

subsection \<open>The example values\<close>

lemma contact_form_key: "x_api_key contact_form \<in> Some ` set validKeys"
  by (simp add: contact_form_def validKeys_def)

lemma contact_form_type: "member_of (body contact_form) ''type'' = Some (JStr (event_type Form))"
  by (simp add: contact_form_def member_of_def)

lemma contact_form_data: "member_of (body contact_form) ''data'' = Some (JObj contact_data)"
  by (simp add: contact_form_def member_of_def)

lemma same_second_db_eq:
  "same_second_db = empty_db\<lparr>form_submissions := [contact_row 1 1000], form_seq := 1\<rparr>"
  by (simp add: same_second_db_def api_track_def validateApiKey_def validKeys_def track_def
      track_try_def contact_form_def contact_data_def member_of_def form_fields_def db_run_def
      insert_form_def next_rowid_def strings_lib_def empty_db_def contact_row_def)

lemma three_views_eq:
  "user_analytics three_views =
     map (\<lambda>i. \<lparr>row_id = Suc i, timestamp = 1000 + i, session_id = Some ''s1'',
                 user_page_url = Some ''/'', user_referrer = None, user_device_type = None,
                 screen_resolution = None, user_agent = None, time_on_page = SqlNull\<rparr>) [0, 1, 2]"
  by (simp add: three_views_def api_track_def validateApiKey_def validKeys_def track_def
      track_try_def page_view_def member_of_def user_fields_def db_run_def
      insert_user_def next_rowid_def strings_lib_def empty_db_def)

lemma three_views_count:
  "unique_session_count strings_lib 1500 plain_get three_views = Some 1"
  by (simp add: unique_session_count_eq three_views_eq today_def date_def count_distinct_def
      List.map_filter_simps)

subsection \<open>Authorization\<close>

text \<open>
  C1. For every payload and every API key that is not in the allowlist, or absent, the
  tracking route answers 401 and writes nothing: the store after the request is the store
  before it, whatever the store would have done with a write.
\<close>

theorem C1_unauthorized_no_write:
  assumes "x_api_key req \<notin> Some ` set validKeys"
  shows "api_track lib w now req db = (unauthorized, db)"
  using assms
  by (cases "x_api_key req") (auto simp: api_track_def validateApiKey_def unauthorized_def)

text \<open>At a key that is not in the list, and at no key.\<close>

theorem C1_unauthorized_no_write_witness:
  "x_api_key (contact_form\<lparr>x_api_key := Some ''dvl-media-prod''\<rparr>) \<notin> Some ` set validKeys
   \<and> api_track strings_lib Succeeds 1000 (contact_form\<lparr>x_api_key := Some ''dvl-media-prod''\<rparr>) empty_db
       = (unauthorized, empty_db)
   \<and> x_api_key (contact_form\<lparr>x_api_key := None\<rparr>) \<notin> Some ` set validKeys
   \<and> api_track strings_lib Succeeds 1000 (contact_form\<lparr>x_api_key := None\<rparr>) empty_db
       = (unauthorized, empty_db)"
proof -
  have a: "x_api_key (contact_form\<lparr>x_api_key := Some ''dvl-media-prod''\<rparr>) \<notin> Some ` set validKeys"
    by (simp add: validKeys_def)
  have b: "x_api_key (contact_form\<lparr>x_api_key := None\<rparr>) \<notin> Some ` set validKeys"
    by auto
  show ?thesis
    using a b C1_unauthorized_no_write [OF a, of strings_lib Succeeds 1000 empty_db]
      C1_unauthorized_no_write [OF b, of strings_lib Succeeds 1000 empty_db]
    by blast
qed

subsection \<open>A write that fails\<close>

text \<open>
  C2. The property asks that a submit with a valid key and a valid type answers 500 when
  the store's write fails. The handler calls \<open>db.run\<close> without a callback and answers at
  once, so it answers 200 \<open>{success: true}\<close> also when the write fails and no row is
  stored: with a valid key, a type of the switch and an object as data, the response to a
  failed write is the acknowledgement, and the store is unchanged.
\<close>

theorem C2_failed_write_acknowledged:
  assumes "x_api_key req \<in> Some ` set validKeys"
    and "member_of (body req) ''type'' = Some (JStr (event_type k))"
    and "member_of (body req) ''data'' = Some (JObj kvs)"
  shows "api_track lib Fails now req db = (tracked, db)"
  using assms
  by (simp add: api_track_valid_key track_def track_try_kind get_props_object db_run_def)

theorem C2_failed_write_acknowledged_witness:
  "x_api_key contact_form \<in> Some ` set validKeys
   \<and> member_of (body contact_form) ''type'' = Some (JStr (event_type Form))
   \<and> member_of (body contact_form) ''data'' = Some (JObj contact_data)
   \<and> api_track strings_lib Fails 1000 contact_form empty_db = (tracked, empty_db)"
  using contact_form_key contact_form_type contact_form_data
    C2_failed_write_acknowledged [OF contact_form_key contact_form_type contact_form_data,
      of strings_lib 1000 empty_db]
  by blast

subsection \<open>An unknown type\<close>

text \<open>
  C3. For every payload, a submit with a valid key whose type is none of performance, seo,
  form and user (or is absent, or is not a string) answers 400 and leaves the store, hence
  the row count of each of the four tables, as it was.
\<close>

theorem C3_unknown_type_no_write:
  assumes "x_api_key req \<in> Some ` set validKeys"
    and "member_of (body req) ''type'' \<notin>
           {Some (JStr ''performance''), Some (JStr ''seo''), Some (JStr ''form''), Some (JStr ''user'')}"
  shows "api_track lib w now req db = (invalid_type, db)"
  using assms by (simp add: api_track_valid_key track_def track_try_unknown)

theorem C3_unknown_type_no_write_witness:
  "x_api_key bogus_event \<in> Some ` set validKeys
   \<and> member_of (body bogus_event) ''type'' \<notin>
        {Some (JStr ''performance''), Some (JStr ''seo''), Some (JStr ''form''), Some (JStr ''user'')}
   \<and> api_track strings_lib Succeeds 1000 bogus_event same_second_db = (invalid_type, same_second_db)"
proof -
  have k: "x_api_key bogus_event \<in> Some ` set validKeys"
    by (simp add: bogus_event_def validKeys_def)
  have t: "member_of (body bogus_event) ''type'' \<notin>
      {Some (JStr ''performance''), Some (JStr ''seo''), Some (JStr ''form''), Some (JStr ''user'')}"
    by (simp add: bogus_event_def member_of_def)
  show ?thesis
    using k t C3_unknown_type_no_write [OF k t, of strings_lib Succeeds 1000 same_second_db]
    by blast
qed

subsection \<open>Submit, then list\<close>

text \<open>
  C4, as the code has it. For every kind and every payload whose data is an object, a
  submit with a valid key that the store carries out is acknowledged, puts exactly one
  row, stamped with the server's clock, at the end of the table of that kind (whose row
  count rises by one) and leaves the other three tables as they were. The listing of that
  kind that follows returns the new row first when every row already in the table has a
  strictly earlier timestamp.
\<close>

theorem C4_submit_then_list:
  assumes "x_api_key req \<in> Some ` set validKeys"
    and "member_of (body req) ''type'' = Some (JStr (event_type k))"
    and "member_of (body req) ''data'' = Some (JObj kvs)"
    and "api_track lib Succeeds now req db = (r, db')"
  shows "r = tracked
    \<and> (\<exists>new. table_of k db' = table_of k db @ [new] \<and> stamp new = now
          \<and> ((\<forall>old\<in>set (table_of k db). stamp old < now)
               \<longrightarrow> (\<exists>rest. listed (fst (list_kind k Succeeds req' db')) = new # rest)))
    \<and> length (table_of k db') = Suc (length (table_of k db))
    \<and> (\<forall>k'. k' \<noteq> k \<longrightarrow> table_of k' db' = table_of k' db)"
proof -
  let ?ps = "map (member_of kvs) (fields_of k)"
  have "api_track lib Succeeds now req db = (tracked, db_run Succeeds (insert_of k lib now ?ps) db)"
    using assms(1-3) by (simp add: track_accepts get_props_object)
  with assms(4) have r: "r = tracked" and db': "db' = insert_of k lib now ?ps db"
    by (simp_all add: db_run_def)
  obtain new where new: "table_of k db' = table_of k db @ [new]" "stamp new = now"
    using insert_of_same [of k lib now ?ps db] db' by auto
  have first: "\<exists>rest. listed (fst (list_kind k Succeeds req' db')) = new # rest"
    if "\<forall>old\<in>set (table_of k db). stamp old < now"
  proof -
    have "\<forall>y\<in>set (table_of k db). - int (stamp new) < - int (stamp y)"
      using that new(2) by simp
    then have "sort_key (\<lambda>r. - int (stamp r)) (table_of k db @ [new]) =
        new # sort_key (\<lambda>r. - int (stamp r)) (table_of k db)"
      by (rule sort_key_snoc_least)
    then show ?thesis
      by (simp add: listed_list_kind new(1) take_Cons')
  qed
  have others: "\<forall>k'. k' \<noteq> k \<longrightarrow> table_of k' db' = table_of k' db"
    using insert_of_other db' by blast
  show ?thesis
    using r new first others by auto
qed

text \<open>The form event tracked at second 2000, on the store that holds one row of second 1000.\<close>

theorem C4_submit_then_list_witness:
  "x_api_key contact_form \<in> Some ` set validKeys
   \<and> member_of (body contact_form) ''type'' = Some (JStr (event_type Form))
   \<and> member_of (body contact_form) ''data'' = Some (JObj contact_data)
   \<and> fst (api_track strings_lib Succeeds 2000 contact_form same_second_db) = tracked
   \<and> (\<exists>new rest.
         table_of Form (snd (api_track strings_lib Succeeds 2000 contact_form same_second_db))
           = table_of Form same_second_db @ [new]
         \<and> stamp new = 2000
         \<and> listed (fst (list_kind Form Succeeds plain_get
             (snd (api_track strings_lib Succeeds 2000 contact_form same_second_db)))) = new # rest)
   \<and> length (table_of Form (snd (api_track strings_lib Succeeds 2000 contact_form same_second_db)))
       = Suc (length (table_of Form same_second_db))
   \<and> table_of User (snd (api_track strings_lib Succeeds 2000 contact_form same_second_db))
       = table_of User same_second_db"
proof -
  have older: "\<forall>old\<in>set (table_of Form same_second_db). stamp old < 2000"
    by (simp add: same_second_db_eq empty_db_def contact_row_def)
  have "User \<noteq> Form"
    by simp
  then show ?thesis
    using older contact_form_key contact_form_type contact_form_data
      C4_submit_then_list [OF contact_form_key contact_form_type contact_form_data,
        of strings_lib 2000 same_second_db
           "fst (api_track strings_lib Succeeds 2000 contact_form same_second_db)"
           "snd (api_track strings_lib Succeeds 2000 contact_form same_second_db)" plain_get]
    by (simp del: table_of.simps)
qed

text \<open>
  C4 as stated asks for the new row first after every successful submit. The timestamp
  has a resolution of one second and the listing orders by it alone: the same form event
  tracked twice within second 1000 is listed with the first row (rowid 1) before the new
  one (rowid 2).
\<close>

theorem C4_counterexample:
  "api_track strings_lib Succeeds 1000 contact_form same_second_db
     = (tracked, same_second_db\<lparr>form_submissions := [contact_row 1 1000, contact_row 2 1000],
                                form_seq := 2\<rparr>)
   \<and> listed (fst (list_kind Form Succeeds plain_get
        (snd (api_track strings_lib Succeeds 1000 contact_form same_second_db))))
     = [FormRow (contact_row 1 1000), FormRow (contact_row 2 1000)]
   \<and> hd (listed (fst (list_kind Form Succeeds plain_get
        (snd (api_track strings_lib Succeeds 1000 contact_form same_second_db)))))
     \<noteq> last (table_of Form (snd (api_track strings_lib Succeeds 1000 contact_form same_second_db)))"
  by (simp add: same_second_db_def api_track_def validateApiKey_def validKeys_def track_def
      track_try_def contact_form_def contact_data_def member_of_def form_fields_def db_run_def
      insert_form_def next_rowid_def strings_lib_def empty_db_def tracked_def contact_row_def
      api_forms_def order_by_timestamp_desc_limit_100_def listed_def)

subsection \<open>Unique sessions\<close>

text \<open>
  C5. The \<open>unique_sessions\<close> of the dashboard is the number of different session
  identifiers (values of \<open>session_id\<close> that are not NULL) among the user rows whose
  timestamp falls on the day of the clock (a UTC day). Adding any number of user rows that
  all have one session id raises that number by at most one.
\<close>

theorem C5_unique_sessions:
  "unique_session_count lib now req db =
     Some (card {s. \<exists>u\<in>set (user_analytics db).
                      date (timestamp u) = date now \<and> session_id u = Some s})
   \<and> (user_analytics db' = user_analytics db @ news \<and> (\<forall>u\<in>set news. session_id u = sid)
        \<longrightarrow> (\<exists>n n'. unique_session_count lib now req db = Some n
                    \<and> unique_session_count lib now req db' = Some n' \<and> n' \<le> n + 1))"
proof -
  have "{s. Some s \<in> set (map session_id (today now (user_analytics db)))} =
      {s. \<exists>u\<in>set (user_analytics db). date (timestamp u) = date now \<and> session_id u = Some s}"
    by (force simp: today_def)
  then have eq: "unique_session_count lib now req db =
      Some (card {s. \<exists>u\<in>set (user_analytics db).
                       date (timestamp u) = date now \<and> session_id u = Some s})"
    by (simp add: unique_session_count_eq count_distinct_card)
  have dup: "count_distinct (map session_id (today now (user_analytics db'))) \<le>
      count_distinct (map session_id (today now (user_analytics db))) + 1"
    if "user_analytics db' = user_analytics db @ news" "\<forall>u\<in>set news. session_id u = sid"
  proof -
    have "\<forall>v\<in>set (map session_id (today now news)). v = sid"
      using that(2) by (auto simp: today_def)
    then show ?thesis
      using count_distinct_append_same [of "map session_id (today now news)" sid]
      by (simp add: that(1) today_def)
  qed
  show ?thesis
    using eq dup by (simp add: unique_session_count_eq)
qed

text \<open>Three page views of session s1 on the empty store: the count goes from 0 to 1.\<close>

theorem C5_unique_sessions_witness:
  "user_analytics three_views = user_analytics empty_db @ user_analytics three_views
   \<and> list_all (\<lambda>u. session_id u = Some ''s1'') (user_analytics three_views)
   \<and> length (user_analytics three_views) = 3
   \<and> unique_session_count strings_lib 1500 plain_get empty_db = Some 0
   \<and> (\<exists>n'. unique_session_count strings_lib 1500 plain_get three_views = Some n' \<and> n' \<le> 1)
   \<and> unique_session_count strings_lib 1500 plain_get three_views = Some 1"
proof -
  have a: "user_analytics three_views = user_analytics empty_db @ user_analytics three_views"
    by (simp add: empty_db_def)
  have b: "\<forall>u\<in>set (user_analytics three_views). session_id u = Some ''s1''"
    by (simp add: three_views_eq)
  have c: "unique_session_count strings_lib 1500 plain_get empty_db = Some 0"
    using C5_unique_sessions [of strings_lib 1500 plain_get empty_db]
    by (simp add: empty_db_def)
  show ?thesis
    using a b c
      C5_unique_sessions [of strings_lib 1500 plain_get empty_db three_views
        "user_analytics three_views" "Some ''s1''"]
    by (auto simp: list_all_iff three_views_eq three_views_count)
qed

subsection \<open>The listings\<close>

text \<open>
  C6. For every kind and every state of the store, the listing carries at most 100 rows,
  most recent first, and neither changes the store nor looks at the request (there is no
  offset and no cursor). When the query succeeds the rows are the first
  \<open>min 100 n\<close> of the table's \<open>n\<close> rows in descending order of timestamp: they are
  rows of the table, and no row left out is more recent than a row listed.
\<close>

theorem C6_list_bounded_sorted:
  "length (listed (fst (list_kind k w req db))) \<le> 100
   \<and> sorted_wrt (\<lambda>a b. stamp b \<le> stamp a) (listed (fst (list_kind k w req db)))
   \<and> snd (list_kind k w req db) = db
   \<and> list_kind k w req' db = list_kind k w req db
   \<and> (w = Succeeds \<longrightarrow>
        length (listed (fst (list_kind k w req db))) = min 100 (length (table_of k db))
        \<and> mset (listed (fst (list_kind k w req db))) \<subseteq># mset (table_of k db)
        \<and> (\<forall>x\<in>#mset (table_of k db) - mset (listed (fst (list_kind k w req db))).
             \<forall>y\<in>set (listed (fst (list_kind k w req db))). stamp x \<le> stamp y))"
  using listing_bounded [of k w req db] listing_descending [of k w req db]
    list_kind_reads_only [of k w req db req'] listing_is_top [of k req db]
  by blast

text \<open>On 101 form rows: 100 are listed, and the one left out is no more recent than a row listed.\<close>

theorem C6_list_bounded_sorted_witness:
  "length (table_of Form big_db) = 101
   \<and> length (listed (fst (list_kind Form Succeeds plain_get big_db))) = 100
   \<and> sorted_wrt (\<lambda>a b. stamp b \<le> stamp a) (listed (fst (list_kind Form Succeeds plain_get big_db)))
   \<and> snd (list_kind Form Succeeds plain_get big_db) = big_db
   \<and> list_kind Form Succeeds contact_form big_db = list_kind Form Succeeds plain_get big_db
   \<and> size (mset (table_of Form big_db) - mset (listed (fst (list_kind Form Succeeds plain_get big_db)))) = 1
   \<and> (\<exists>x y. x \<in># mset (table_of Form big_db) - mset (listed (fst (list_kind Form Succeeds plain_get big_db)))
          \<and> y \<in> set (listed (fst (list_kind Form Succeeds plain_get big_db)))
          \<and> stamp x \<le> stamp y)"
proof -
  let ?rs = "listed (fst (list_kind Form Succeeds plain_get big_db))"
  let ?tb = "table_of Form big_db"
  have len: "length ?tb = 101"
    by (simp add: big_db_def empty_db_def)
  note inst = C6_list_bounded_sorted [of Form Succeeds plain_get big_db contact_form]
  from inst have desc: "sorted_wrt (\<lambda>a b. stamp b \<le> stamp a) ?rs"
    by blast
  from inst have same: "snd (list_kind Form Succeeds plain_get big_db) = big_db"
    by blast
  from inst have req: "list_kind Form Succeeds contact_form big_db = list_kind Form Succeeds plain_get big_db"
    by blast
  from inst have m: "length ?rs = min 100 (length ?tb)"
    by blast
  from inst have sub: "mset ?rs \<subseteq># mset ?tb"
    by blast
  from inst have top: "\<forall>x\<in>#mset ?tb - mset ?rs. \<forall>y\<in>set ?rs. stamp x \<le> stamp y"
    by blast
  have n: "length ?rs = 100"
    unfolding m len by simp
  have "size (mset ?tb - mset ?rs) = size (mset ?tb) - size (mset ?rs)"
    using sub by (rule size_Diff_submset)
  then have sz: "size (mset ?tb - mset ?rs) = 1"
    unfolding size_mset len n by simp
  then obtain x where x: "x \<in># mset ?tb - mset ?rs"
    by (metis One_nat_def multiset_nonemptyE size_empty zero_neq_one)
  have "?rs \<noteq> []"
    using n by auto
  then obtain y where y: "y \<in> set ?rs"
    by (cases ?rs) auto
  have xy: "stamp x \<le> stamp y"
    using top x y by blast
  have ex: "\<exists>x y. x \<in># mset ?tb - mset ?rs \<and> y \<in> set ?rs \<and> stamp x \<le> stamp y"
    using x y xy by blast
  show ?thesis
    using len n desc same req sz ex by blast
qed

subsection \<open>The dashboard\<close>

text \<open>
  C7. When any one of the three queries of the dashboard fails, the response is 500 with
  an error body and no summary; a summary is returned exactly when all three succeed.
\<close>

theorem C7_dashboard_all_or_nothing:
  "(r1 = Fails \<or> r2 = Fails \<or> r3 = Fails
      \<longrightarrow> api_dashboard lib r1 r2 r3 now req db = (database_error, db))
   \<and> ((\<exists>t st. json_body (fst (api_dashboard lib r1 r2 r3 now req db)) = Summary t st)
        = (r1 = Succeeds \<and> r2 = Succeeds \<and> r3 = Succeeds))"
  by (cases r1; cases r2; cases r3) (simp_all add: api_dashboard_def database_error_def Let_def)

text \<open>The second query fails; all three succeed.\<close>

theorem C7_dashboard_all_or_nothing_witness:
  "api_dashboard strings_lib Succeeds Fails Succeeds 1000 plain_get same_second_db
     = (database_error, same_second_db)
   \<and> (\<exists>t st. json_body (fst (api_dashboard strings_lib Succeeds Succeeds Succeeds 1000 plain_get
         same_second_db)) = Summary t st)"
  using C7_dashboard_all_or_nothing [of Succeeds Fails Succeeds strings_lib 1000 plain_get same_second_db]
    C7_dashboard_all_or_nothing [of Succeeds Succeeds Succeeds strings_lib 1000 plain_get same_second_db]
  by simp

subsection \<open>A payload that cannot be read\<close>

text \<open>
  C8, as the code has it. The handler checks nothing of the payload. With a valid key:
  a submit with a type of the switch whose data is absent or \<open>null\<close> answers 500
  \<open>Failed to track data\<close>, the response of the handler's \<open>catch\<close>, and writes nothing
  (reading a property of \<open>undefined\<close> or \<open>null\<close> throws inside the \<open>try\<close> block, before
  \<open>db.run\<close> is called); a submit with a type of the switch whose data is any other value
  that is not an object (a string, a number, a boolean, an array) is acknowledged with 200,
  and the row given to the store has \<open>undefined\<close> bound to every field; and the response
  is 400 exactly when the type is none of the four of the switch, whatever the data.
\<close>

theorem C8_unusable_payload:
  assumes "x_api_key req \<in> Some ` set validKeys"
  shows "(member_of (body req) ''type'' = Some (JStr (event_type k))
          \<and> member_of (body req) ''data'' \<in> {None, Some JNull}
          \<longrightarrow> api_track lib w now req db = (failed_to_track, db))
    \<and> (member_of (body req) ''type'' = Some (JStr (event_type k))
          \<and> member_of (body req) ''data'' = Some v \<and> v \<noteq> JNull \<and> (\<forall>kvs. v \<noteq> JObj kvs)
          \<longrightarrow> api_track lib w now req db
                = (tracked, db_run w (insert_of k lib now (map (\<lambda>f. None) (fields_of k))) db))
    \<and> ((http_status (fst (api_track lib w now req db)) = 400)
         = (member_of (body req) ''type'' \<notin>
             {Some (JStr ''performance''), Some (JStr ''seo''), Some (JStr ''form''), Some (JStr ''user'')}))
    \<and> ((fst (api_track lib w now req db) = invalid_type)
         = (member_of (body req) ''type'' \<notin>
             {Some (JStr ''performance''), Some (JStr ''seo''), Some (JStr ''form''), Some (JStr ''user'')}))"
proof -
  let ?known = "{Some (JStr ''performance''), Some (JStr ''seo''), Some (JStr ''form''), Some (JStr ''user'')}
      :: 'a json option set"
  have nullish: "api_track lib w now req db = (failed_to_track, db)"
    if "member_of (body req) ''type'' = Some (JStr (event_type k))"
      "member_of (body req) ''data'' \<in> {None, Some JNull}"
    using assms that
    by (simp add: api_track_valid_key track_def track_try_kind get_props_nullish fields_of_not_Nil
        failed_to_track_def)
  have primitive: "api_track lib w now req db
      = (tracked, db_run w (insert_of k lib now (map (\<lambda>f. None) (fields_of k))) db)"
    if "member_of (body req) ''type'' = Some (JStr (event_type k))"
      "member_of (body req) ''data'' = Some v" "v \<noteq> JNull" "\<forall>kvs. v \<noteq> JObj kvs"
    using assms that(1) by (rule track_accepts) (simp add: that get_props_primitive)
  have unknown: "api_track lib w now req db = (invalid_type, db)"
    if "member_of (body req) ''type'' \<notin> ?known"
    using assms that by (simp add: api_track_valid_key track_def track_try_unknown)
  have known: "http_status (fst (api_track lib w now req db)) \<noteq> 400"
    if kn: "member_of (body req) ''type'' \<in> ?known"
  proof -
    obtain k' where "member_of (body req) ''type'' = Some (JStr (event_type k'))"
      using known_type_kind [OF kn] by blast
    then show ?thesis
      using assms by (simp add: api_track_valid_key track_known_type_status)
  qed
  have status: "(http_status (fst (api_track lib w now req db)) = 400)
      = (member_of (body req) ''type'' \<notin> ?known)"
    using unknown known by (auto simp: invalid_type_def)
  have reply: "(fst (api_track lib w now req db) = invalid_type)
      = (member_of (body req) ''type'' \<notin> ?known)"
    using unknown known by (auto simp: invalid_type_def)
  show ?thesis
    using nullish primitive status reply by blast
qed

text \<open>Data that is \<open>null\<close>, data that is a string, and an unknown type.\<close>

theorem C8_unusable_payload_witness:
  "x_api_key user_with_null_data \<in> Some ` set validKeys
   \<and> member_of (body user_with_null_data) ''type'' = Some (JStr (event_type User))
   \<and> member_of (body user_with_null_data) ''data'' \<in> {None, Some JNull}
   \<and> api_track strings_lib Succeeds 1000 user_with_null_data empty_db = (failed_to_track, empty_db)
   \<and> http_status (fst (api_track strings_lib Succeeds 1000 user_with_null_data empty_db)) \<noteq> 400
   \<and> x_api_key form_with_string_data \<in> Some ` set validKeys
   \<and> member_of (body form_with_string_data) ''type'' = Some (JStr (event_type Form))
   \<and> member_of (body form_with_string_data) ''data'' = Some (JStr ''abc'')
   \<and> api_track strings_lib Succeeds 1000 form_with_string_data empty_db
       = (tracked, db_run Succeeds
            (insert_of Form strings_lib 1000 (map (\<lambda>f. None) (fields_of Form))) empty_db)
   \<and> form_submissions (snd (api_track strings_lib Succeeds 1000 form_with_string_data empty_db))
       = [\<lparr>row_id = 1, timestamp = 1000, form_type = None, form_page_url = None,
           form_referrer = None, form_device_type = None, conversion_source = None\<rparr>]
   \<and> x_api_key bogus_event \<in> Some ` set validKeys
   \<and> member_of (body bogus_event) ''type'' \<notin>
        {Some (JStr ''performance''), Some (JStr ''seo''), Some (JStr ''form''), Some (JStr ''user'')}
   \<and> http_status (fst (api_track strings_lib Succeeds 1000 bogus_event empty_db)) = 400
   \<and> fst (api_track strings_lib Succeeds 1000 bogus_event empty_db) = invalid_type"
proof -
  have k1: "x_api_key user_with_null_data \<in> Some ` set validKeys"
    by (simp add: user_with_null_data_def validKeys_def)
  have t1: "member_of (body user_with_null_data) ''type'' = Some (JStr (event_type User))"
    by (simp add: user_with_null_data_def member_of_def)
  have d1: "member_of (body user_with_null_data) ''data'' \<in> {None, Some JNull}"
    by (simp add: user_with_null_data_def member_of_def)
  have k2: "x_api_key form_with_string_data \<in> Some ` set validKeys"
    by (simp add: form_with_string_data_def validKeys_def)
  have t2: "member_of (body form_with_string_data) ''type'' = Some (JStr (event_type Form))"
    by (simp add: form_with_string_data_def member_of_def)
  have d2: "member_of (body form_with_string_data) ''data'' = Some (JStr ''abc'')"
    by (simp add: form_with_string_data_def member_of_def)
  have k3: "x_api_key bogus_event \<in> Some ` set validKeys"
    by (simp add: bogus_event_def validKeys_def)
  have t3: "member_of (body bogus_event) ''type'' \<notin>
      {Some (JStr ''performance''), Some (JStr ''seo''), Some (JStr ''form''), Some (JStr ''user'')}"
    by (simp add: bogus_event_def member_of_def)
  have t1': "member_of (body user_with_null_data) ''type'' \<in>
      {Some (JStr ''performance''), Some (JStr ''seo''), Some (JStr ''form''), Some (JStr ''user'')}"
    by (simp add: user_with_null_data_def member_of_def)
  note a = C8_unusable_payload [OF k1, where k = User and lib = strings_lib and w = Succeeds
      and now = 1000 and db = empty_db and v = "JStr ''abc''"]
  note b = C8_unusable_payload [OF k2, where k = Form and lib = strings_lib and w = Succeeds
      and now = 1000 and db = empty_db and v = "JStr ''abc''"]
  note c = C8_unusable_payload [OF k3, where k = Form and lib = strings_lib and w = Succeeds
      and now = 1000 and db = empty_db and v = "JStr ''abc''"]
  have r1: "api_track strings_lib Succeeds 1000 user_with_null_data empty_db = (failed_to_track, empty_db)"
    using a t1 d1 by blast
  have s1: "http_status (fst (api_track strings_lib Succeeds 1000 user_with_null_data empty_db)) \<noteq> 400"
    using a t1' by blast
  have r2: "api_track strings_lib Succeeds 1000 form_with_string_data empty_db
      = (tracked, db_run Succeeds
           (insert_of Form strings_lib 1000 (map (\<lambda>f. None) (fields_of Form))) empty_db)"
    using b t2 d2 by blast
  have row: "form_submissions (snd (api_track strings_lib Succeeds 1000 form_with_string_data empty_db))
      = [\<lparr>row_id = 1, timestamp = 1000, form_type = None, form_page_url = None,
          form_referrer = None, form_device_type = None, conversion_source = None\<rparr>]"
    unfolding r2
    by (simp add: db_run_def insert_form_def form_fields_def next_rowid_def strings_lib_def
        empty_db_def)
  have s3: "http_status (fst (api_track strings_lib Succeeds 1000 bogus_event empty_db)) = 400"
    using c t3 by blast
  have r3: "fst (api_track strings_lib Succeeds 1000 bogus_event empty_db) = invalid_type"
    using c t3 by blast
  show ?thesis
    using k1 t1 d1 r1 s1 k2 t2 d2 r2 row k3 t3 s3 r3 by blast
qed

text \<open>
  C8 as stated asks for the 400 response. A form event with a valid key and no data
  is answered 500, not 400.
\<close>

theorem C8_counterexample:
  "api_track strings_lib Succeeds 1000 form_without_data empty_db = (failed_to_track, empty_db)
   \<and> fst (api_track strings_lib Succeeds 1000 form_without_data empty_db) \<noteq> invalid_type
   \<and> http_status (fst (api_track strings_lib Succeeds 1000 form_without_data empty_db)) = 500"
  by (simp add: api_track_def validateApiKey_def validKeys_def track_def track_try_def
      form_without_data_def member_of_def form_fields_def failed_to_track_def invalid_type_def)

subsection \<open>The timestamp is the server's\<close>

text \<open>
  C9. The response and the store after a submit depend on the payload only through the
  properties that the case of its type reads: two requests with the same key and type
  whose data agree on those properties (they may differ in a \<open>timestamp\<close>, an \<open>id\<close>
  or any other key) give the same response and the same store, hence the same row in all
  columns. The row of every acknowledged submit that the store carries out is stamped with
  the server's clock.
\<close>

theorem C9_server_timestamp:
  assumes "x_api_key req' = x_api_key req"
    and "member_of (body req) ''type'' = Some (JStr (event_type k))"
    and "member_of (body req') ''type'' = Some (JStr (event_type k))"
    and "\<forall>f\<in>set (fields_of k).
           get_prop (member_of (body req') ''data'') f = get_prop (member_of (body req) ''data'') f"
  shows "api_track lib w now req' db = api_track lib w now req db
    \<and> (fst (api_track lib Succeeds now req db) = tracked
        \<longrightarrow> (\<exists>new. table_of k (snd (api_track lib Succeeds now req db)) = table_of k db @ [new]
                  \<and> stamp new = now))"
proof -
  have "get_props (member_of (body req') ''data'') (fields_of k) =
      get_props (member_of (body req) ''data'') (fields_of k)"
    using assms(4) by (rule get_props_cong)
  then have "track lib w now req' db = track lib w now req db"
    using assms(2,3) by (simp add: track_def track_try_kind)
  moreover have "validateApiKey req' = validateApiKey req"
    using assms(1) by (rule validateApiKey_key)
  ultimately have same: "api_track lib w now req' db = api_track lib w now req db"
    by (simp add: api_track_def split: option.splits)
  have stamped: "\<exists>new. table_of k (snd (api_track lib Succeeds now req db)) = table_of k db @ [new]
      \<and> stamp new = now"
    if ok: "fst (api_track lib Succeeds now req db) = tracked"
  proof (cases "validateApiKey req")
    case (Some r)
    with ok validateApiKey_not_tracked [of req] show ?thesis
      by (simp add: api_track_def)
  next
    case None
    show ?thesis
    proof (cases "get_props (member_of (body req) ''data'') (fields_of k)")
      case (Inl e)
      with ok None assms(2) show ?thesis
        by (simp add: api_track_def track_def track_try_kind tracked_def)
    next
      case (Inr ps)
      with None assms(2) have "snd (api_track lib Succeeds now req db) = insert_of k lib now ps db"
        by (simp add: api_track_def track_def track_try_kind db_run_def)
      then show ?thesis
        using insert_of_same [of k lib now ps db] by simp
    qed
  qed
  show ?thesis
    using same stamped by blast
qed

text \<open>The form event with and without a client's \<open>timestamp\<close> and \<open>id\<close>, at second 1000.\<close>

theorem C9_server_timestamp_witness:
  "x_api_key contact_form_with_timestamp = x_api_key contact_form
   \<and> member_of (body contact_form_with_timestamp) ''type'' = Some (JStr (event_type Form))
   \<and> get_prop (member_of (body contact_form_with_timestamp) ''data'') ''timestamp''
       = Inr (Some (JStr ''1999-12-31 23:59:59''))
   \<and> get_prop (member_of (body contact_form) ''data'') ''timestamp'' = Inr None
   \<and> list_all (\<lambda>f. get_prop (member_of (body contact_form_with_timestamp) ''data'') f
                     = get_prop (member_of (body contact_form) ''data'') f) (fields_of Form)
   \<and> api_track strings_lib Succeeds 1000 contact_form_with_timestamp empty_db
       = api_track strings_lib Succeeds 1000 contact_form empty_db
   \<and> fst (api_track strings_lib Succeeds 1000 contact_form empty_db) = tracked
   \<and> (\<exists>new. table_of Form (snd (api_track strings_lib Succeeds 1000 contact_form empty_db))
               = table_of Form empty_db @ [new] \<and> stamp new = 1000)"
proof -
  have k: "x_api_key contact_form_with_timestamp = x_api_key contact_form"
    by (simp add: contact_form_with_timestamp_def contact_form_def)
  have t: "member_of (body contact_form_with_timestamp) ''type'' = Some (JStr (event_type Form))"
    by (simp add: contact_form_with_timestamp_def member_of_def)
  have c: "get_prop (member_of (body contact_form_with_timestamp) ''data'') ''timestamp''
      = Inr (Some (JStr ''1999-12-31 23:59:59''))"
    by (simp add: contact_form_with_timestamp_def member_of_def contact_data_def)
  have n: "get_prop (member_of (body contact_form) ''data'') ''timestamp'' = Inr None"
    by (simp add: contact_form_def member_of_def contact_data_def)
  have f: "\<forall>f\<in>set (fields_of Form).
      get_prop (member_of (body contact_form_with_timestamp) ''data'') f
        = get_prop (member_of (body contact_form) ''data'') f"
    by (simp add: contact_form_with_timestamp_def contact_form_def member_of_def contact_data_def
        form_fields_def)
  have ok: "fst (api_track strings_lib Succeeds 1000 contact_form empty_db) = tracked"
    by (simp add: track_accepts [OF contact_form_key contact_form_type] contact_form_data
        get_props_object)
  show ?thesis
    using k t c n f ok
      C9_server_timestamp [OF k contact_form_type t f, of strings_lib Succeeds 1000 empty_db]
    by (simp add: list_all_iff del: table_of.simps fields_of.simps)
qed

subsection \<open>The health check\<close>

text \<open>
  C10. The health route answers 200 with status \<open>healthy\<close> and database \<open>connected\<close>
  for every request, with or without a key, whatever the state of the store and whether
  or not the store would carry an operation out; it leaves the store as it is.
\<close>

theorem C10_health_always_healthy:
  "api_health req w now db =
     (\<lparr>http_status = 200,
       json_body = Health ''healthy'' ''DVL Analytics API'' ''1.0.0'' now ''connected''\<rparr>, db)
   \<and> fst (api_health req w now db) = fst (api_health req' w' now db')"
  by (simp add: api_health_def)

end
